theory Spec2Isabelle
  imports Main "HOL-Library.AList" "HOL-Library.Multiset"
begin

section \<open>Go values used by the client\<close>

text \<open>
  A Go \<open>error\<close> is an interface value with a message. \<open>errorString\<close> is what
  \<open>errors.New\<close> and \<open>fmt.Errorf\<close> build; \<open>otherError\<close> stands for an error value
  produced by a collaborator (transport, XML decoder, response reader), identified by a
  number so that two such values with the same message stay different values.
  A nil error is \<open>None\<close>. \<open>runtimePanic\<close> is a run-time panic, which unwinds through
  every caller the way an error that each caller returns at once does.
\<close>

datatype error = errorString string | otherError nat string | runtimePanic string

fun Error :: "error \<Rightarrow> string" where
  "Error (errorString s) = s"
| "Error (otherError i s) = s"
| "Error (runtimePanic s) = s"

text \<open>The part of \<open>http.Response\<close> that the client reads.\<close>

record response =
  StatusCode :: int
  Body :: string

text \<open>
  The fields of the device listing that \<open>fritzapi.go\<close> reads. The declaration of the
  two types is in another file; further fields sit in the extension slot of the records.
\<close>

record Device =
  Name :: string
  Identifier :: string

record Devicelist =
  Devices :: "Device list"

record Config =
  Protocol :: string
  Host :: string
  Port :: string

record SessionInfo =
  SID :: string

text \<open>
  \<open>HTTPClient\<close> answers a GET for a URL, given the URLs requested before it: either a
  transport error or a response. (\<open>http.Client.Get\<close> returns a non-nil response
  whenever its error is nil.)
\<close>

record Client =
  Config :: Config
  SessionInfo :: SessionInfo
  HTTPClient :: "string list \<Rightarrow> string \<Rightarrow> error + response"

record fritzImpl =
  client :: Client

record result =
  msg :: string
  err :: "error option"

section \<open>Effects\<close>

text \<open>
  Everything the client does to the outside is recorded in a \<open>world\<close>, passed through
  every operation: the URLs sent to the gateway (oldest first), the lines handed to the
  logger, and the names of the targets whose unit of work has been run.
\<close>

datatype logline = Success string | Warn string

record world =
  requests :: "string list"
  logged :: "logline list"
  executed :: "string list"

type_synonym callable = "world \<Rightarrow> (string \<times> error option) \<times> world"

text \<open>
  The collaborators whose code is outside \<open>fritzapi.go\<close>, taken as parameters: the
  XML decoder (the decoded value and the decoding error), \<open>httpread.ReadFullyString\<close>,
  \<open>strings.TrimSpace\<close>, and the two choices left to the Go runtime, the order in which
  \<open>range\<close> walks a map and the order in which the units of work complete.
\<close>

record extern =
  xmlDecode :: "string \<Rightarrow> Devicelist \<times> error option"
  ReadFullyString :: "error + response \<Rightarrow> string \<times> error option"
  TrimSpace :: "string \<Rightarrow> string"
  mapOrder :: "nat list"
  completion :: "nat list"

text \<open>
  \<open>float64\<close> is kept abstract: the doubling \<open>2 * value\<close> and \<open>math.Round\<close> are
  operations on a type \<open>'f\<close> of floating-point values.
\<close>

record 'f float64 =
  times2 :: "'f \<Rightarrow> 'f"
  Round :: "'f \<Rightarrow> int"

text \<open>
  An order chosen by the runtime: \<open>arrange ps xs\<close> lists the elements of \<open>xs\<close>, taking
  at each step the element that the next choice points at. Every list of choices gives a
  rearrangement of \<open>xs\<close>.
\<close>

fun arrange :: "nat list \<Rightarrow> 'a list \<Rightarrow> 'a list" where
  "arrange ps [] = []"
| "arrange [] xs = xs"
| "arrange (p # ps) xs =
     (let i = p mod length xs
      in xs ! i # arrange ps (take i xs @ drop (Suc i) xs))"

section \<open>Standard library\<close>

text \<open>\<open>strings.Join(elems, sep)\<close>.\<close>

fun Join :: "string list \<Rightarrow> string \<Rightarrow> string" where
  "Join [] sep = []"
| "Join [s] sep = s"
| "Join (s # t # ss) sep = s @ sep @ Join (t # ss) sep"

text \<open>\<open>strings.Replace(s, old, new, -1)\<close> for an \<open>old\<close> of one byte.\<close>

definition Replace :: "string \<Rightarrow> char \<Rightarrow> string \<Rightarrow> string" where
  "Replace s old new = concat (map (\<lambda>c. if c = old then new else [c]) s)"

text \<open>\<open>fmt.Sprintf("%d", n)\<close> for an integer \<open>n\<close>.\<close>

fun digits :: "nat \<Rightarrow> string" where
  "digits n =
     (if n < 10 then [''0123456789'' ! n]
      else digits (n div 10) @ [''0123456789'' ! (n mod 10)])"

definition Sprintf_d :: "int \<Rightarrow> string" where
  "Sprintf_d n = (if n < 0 then ''-'' @ digits (nat (- n)) else digits (nat n))"

section \<open>Helpers of the repository that are outside \<open>fritzapi.go\<close>\<close>

text \<open>
  Modelled from the spec: \<open>stringutils.StringKeys\<close> is not among the sources. The spec
  has the error of an unknown name list every known device name; the keys of the map
  are listed in the order the runtime walks it.
\<close>

definition StringKeys :: "extern \<Rightarrow> (string \<times> string) list \<Rightarrow> string list" where
  "StringKeys x m = arrange (mapOrder x) (map fst m)"

text \<open>
  Modelled from the spec: \<open>stringutils.Quote\<close> is not among the sources. The spec has
  every listed name quoted; each element is put between double quotes.
\<close>

definition Quote :: "string list \<Rightarrow> string list" where
  "Quote ss = map (\<lambda>s. [CHR 0x22] @ s @ [CHR 0x22]) ss"

text \<open>
  Modelled from the spec: \<open>stringutils.ErrorMessages\<close> is not among the sources. The
  spec joins the messages of the wrapped errors; each error gives its message.
\<close>

definition ErrorMessages :: "error list \<Rightarrow> string list" where
  "ErrorMessages errs = map Error errs"

text \<open>\<open>logger.Success\<close> and \<open>logger.Warn\<close> hand one line to the logger.\<close>

definition logger_Success :: "string \<Rightarrow> world \<Rightarrow> world" where
  "logger_Success s w = w\<lparr>logged := logged w @ [Success s]\<rparr>"

definition logger_Warn :: "string \<Rightarrow> world \<Rightarrow> world" where
  "logger_Warn s w = w\<lparr>logged := logged w @ [Warn s]\<rparr>"

section \<open>Requests\<close>

definition HTTPClient_Get :: "Client \<Rightarrow> string \<Rightarrow> world \<Rightarrow> (error + response) \<times> world" where
  "HTTPClient_Get c url w =
     (HTTPClient c (requests w) url, w\<lparr>requests := requests w @ [url]\<rparr>)"

definition getWithAinAndParam ::
  "fritzImpl \<Rightarrow> string \<Rightarrow> string \<Rightarrow> string \<Rightarrow> world \<Rightarrow> (error + response) \<times> world" where
  "getWithAinAndParam fritz ain switchcmd param w =
     (let url = Protocol (Config (client fritz)) @ ''://'' @ Host (Config (client fritz)) @ '':''
                @ Port (Config (client fritz)) @ ''/'' @ ''/webservices/homeautoswitch.lua''
                @ ''?ain='' @ ain @ ''&switchcmd='' @ switchcmd @ ''&param='' @ param
                @ ''&sid='' @ SID (SessionInfo (client fritz))
      in HTTPClient_Get (client fritz) url w)"

definition getWithAin ::
  "fritzImpl \<Rightarrow> string \<Rightarrow> string \<Rightarrow> world \<Rightarrow> (error + response) \<times> world" where
  "getWithAin fritz ain switchcmd w =
     (let url = Protocol (Config (client fritz)) @ ''://'' @ Host (Config (client fritz)) @ '':''
                @ Port (Config (client fritz)) @ ''/'' @ ''/webservices/homeautoswitch.lua''
                @ ''?ain='' @ ain @ ''&switchcmd='' @ switchcmd
                @ ''&sid='' @ SID (SessionInfo (client fritz))
      in HTTPClient_Get (client fritz) url w)"

definition get :: "fritzImpl \<Rightarrow> string \<Rightarrow> world \<Rightarrow> (error + response) \<times> world" where
  "get fritz switchcmd w =
     (let url = Protocol (Config (client fritz)) @ ''://'' @ Host (Config (client fritz)) @ '':''
                @ Port (Config (client fritz)) @ ''/'' @ ''/webservices/homeautoswitch.lua''
                @ ''?switchcmd='' @ switchcmd
                @ ''&sid='' @ SID (SessionInfo (client fritz))
      in HTTPClient_Get (client fritz) url w)"

section \<open>The device listing and the directory\<close>

text \<open>
  \<open>ListDevices\<close> returns a pointer and an error; the pointer is \<open>None\<close> when nil. The
  decoder fills the local \<open>deviceList\<close>, whose address is returned whatever the decoder
  reports.
\<close>

definition ListDevices ::
  "extern \<Rightarrow> fritzImpl \<Rightarrow> world \<Rightarrow> (Devicelist option \<times> error option) \<times> world" where
  "ListDevices x fritz w =
     (case get fritz ''getdevicelistinfos'' w of
        (Inl errHTTP, w1) \<Rightarrow> ((None, Some errHTTP), w1)
      | (Inr resp, w1) \<Rightarrow>
          (let (deviceList, errDecode) = xmlDecode x (Body resp)
           in ((Some deviceList, errDecode), w1)))"

text \<open>
  A Go map from strings is an association list with one pair for each key; an assignment
  \<open>m[k] = v\<close> is \<open>AList.update k v m\<close>, a lookup is \<open>map_of m k\<close>, and the nil map is
  the empty list. \<open>fillTable\<close> is the loop of \<open>getNameToAinTable\<close> over the devices.
  Reading \<open>devList.Devices\<close> through a nil pointer would panic; \<open>ListDevices\<close> returns
  a nil pointer only together with an error, so that branch is never taken.
\<close>

fun fillTable :: "Device list \<Rightarrow> (string \<times> string) list \<Rightarrow> (string \<times> string) list" where
  "fillTable [] table = table"
| "fillTable (dev # devs) table =
     fillTable devs (AList.update (Name dev) (Replace (Identifier dev) CHR '' '' []) table)"

definition getNameToAinTable ::
  "extern \<Rightarrow> fritzImpl \<Rightarrow> world \<Rightarrow> ((string \<times> string) list \<times> error option) \<times> world" where
  "getNameToAinTable x fritz w =
     (case ListDevices x fritz w of
        ((devList, e), w1) \<Rightarrow>
          (case e of
             Some e' \<Rightarrow> (([], Some e'), w1)
           | None \<Rightarrow>
               (case devList of
                  None \<Rightarrow> (([], Some (runtimePanic ''nil pointer dereference'')), w1)
                | Some dl \<Rightarrow> ((fillTable (Devices dl) [], None), w1))))"

section \<open>Building the targets\<close>

text \<open>The loop of \<open>buildBacklog\<close> over the requested names.\<close>

fun buildTargets ::
  "extern \<Rightarrow> (string \<times> string) list \<Rightarrow> (string \<Rightarrow> callable) \<Rightarrow> string list \<Rightarrow>
   (string \<times> callable) list \<Rightarrow> (string \<times> callable) list \<times> error option" where
  "buildTargets x namesAndAins workFactory [] targets = (targets, None)"
| "buildTargets x namesAndAins workFactory (name # names) targets =
     (let (ain, ok) = (case map_of namesAndAins name of
                         Some a \<Rightarrow> (a, True)
                       | None \<Rightarrow> ([], False))
      in if ain = [] \<or> \<not> ok
         then (let quoted = Quote (StringKeys x namesAndAins)
               in ([], Some (errorString (''No device found with name '' @ [CHR 0x27] @ name
                     @ [CHR 0x27] @ ''. Available devices are '' @ Join quoted '', ''))))
         else buildTargets x namesAndAins workFactory names
                (AList.update name (workFactory ain) targets))"

definition buildBacklog ::
  "extern \<Rightarrow> fritzImpl \<Rightarrow> string list \<Rightarrow> (string \<Rightarrow> callable) \<Rightarrow> world \<Rightarrow>
   ((string \<times> callable) list \<times> error option) \<times> world" where
  "buildBacklog x fritz names workFactory w =
     (case getNameToAinTable x fritz w of
        ((namesAndAins, Some e), w1) \<Rightarrow> (([], Some e), w1)
      | ((namesAndAins, None), w1) \<Rightarrow>
          (buildTargets x namesAndAins workFactory names [], w1))"

section \<open>Handlers and the combined error\<close>

definition genericSuccessHandler :: "extern \<Rightarrow> string \<Rightarrow> string \<Rightarrow> world \<Rightarrow> result \<times> world" where
  "genericSuccessHandler x key messsage w =
     (\<lparr>msg = messsage, err = None\<rparr>,
      logger_Success (''Successfully processed device '' @ [CHR 0x27] @ key @ [CHR 0x27]
                      @ ''; response was: '' @ TrimSpace x messsage) w)"

definition genericErrorHandler :: "string \<Rightarrow> string \<Rightarrow> error \<Rightarrow> world \<Rightarrow> result \<times> world" where
  "genericErrorHandler key message e w =
     (\<lparr>msg = message,
       err = Some (errorString (''error toggling device '' @ [CHR 0x27] @ key @ [CHR 0x27]
                                @ '': '' @ Error e))\<rparr>,
      logger_Warn (''Error while processing device '' @ [CHR 0x27] @ key @ [CHR 0x27]
                   @ ''; error was: '' @ Error e) w)"

text \<open>The loop of \<open>truncateToOne\<close>: the non-nil errors, in the order of the results.\<close>

fun collectErrs :: "result list \<Rightarrow> error list \<Rightarrow> error list" where
  "collectErrs [] errs = errs"
| "collectErrs (res # rest) errs =
     (case err res of
        Some e \<Rightarrow> collectErrs rest (errs @ [e])
      | None \<Rightarrow> collectErrs rest errs)"

definition truncateToOne :: "result list \<Rightarrow> error option" where
  "truncateToOne results =
     (let errs = collectErrs results []
      in if length errs > 0
         then (let msgs = ErrorMessages errs in Some (errorString (Join msgs ''; '')))
         else None)"

definition genericResult :: "result list \<Rightarrow> error option" where
  "genericResult results =
     (case truncateToOne results of
        Some e \<Rightarrow> Some (errorString (''Not all devices could be processed! Nested errors are: ''
                                     @ Error e))
      | None \<Rightarrow> None)"

section \<open>Running the targets\<close>

text \<open>
  Modelled from the spec: \<open>scatterGather\<close> is not among the sources. The spec has every
  target's unit of work run, each on its own, the dispatcher wait for all of them, and
  each outcome classified as a success or a failure by the matching handler, which gives
  one result for it. The units are run here one after the other, in the order in which
  they complete; \<open>deliver\<close> hands one outcome (name, message, error) to its handler.
\<close>

definition deliver ::
  "(string \<Rightarrow> string \<Rightarrow> world \<Rightarrow> result \<times> world) \<Rightarrow>
   (string \<Rightarrow> string \<Rightarrow> error \<Rightarrow> world \<Rightarrow> result \<times> world) \<Rightarrow>
   string \<times> string \<times> error option \<Rightarrow> world \<Rightarrow> result \<times> world" where
  "deliver onSuccess onError outcome w =
     (case outcome of
        (key, message, None) \<Rightarrow> onSuccess key message w
      | (key, message, Some e) \<Rightarrow> onError key message e w)"

fun gather ::
  "(string \<times> callable) list \<Rightarrow>
   (string \<Rightarrow> string \<Rightarrow> world \<Rightarrow> result \<times> world) \<Rightarrow>
   (string \<Rightarrow> string \<Rightarrow> error \<Rightarrow> world \<Rightarrow> result \<times> world) \<Rightarrow>
   world \<Rightarrow> result list \<times> world" where
  "gather [] onSuccess onError w = ([], w)"
| "gather ((key, work) # rest) onSuccess onError w =
     (let ((message, e), w1) = work (w\<lparr>executed := executed w @ [key]\<rparr>);
          (res, w2) = deliver onSuccess onError (key, message, e) w1;
          (ress, w3) = gather rest onSuccess onError w2
      in (res # ress, w3))"

definition scatterGather ::
  "extern \<Rightarrow> (string \<times> callable) list \<Rightarrow>
   (string \<Rightarrow> string \<Rightarrow> world \<Rightarrow> result \<times> world) \<Rightarrow>
   (string \<Rightarrow> string \<Rightarrow> error \<Rightarrow> world \<Rightarrow> result \<times> world) \<Rightarrow>
   world \<Rightarrow> result list \<times> world" where
  "scatterGather x workTable onSuccess onError w =
     gather (arrange (completion x) workTable) onSuccess onError w"

section \<open>The dispatcher and the four commands\<close>

definition doConcurrently ::
  "extern \<Rightarrow> fritzImpl \<Rightarrow> (string \<Rightarrow> callable) \<Rightarrow> string list \<Rightarrow> world \<Rightarrow> error option \<times> world" where
  "doConcurrently x fritz workFactory names w =
     (case buildBacklog x fritz names workFactory w of
        ((targets, Some e), w1) \<Rightarrow> (Some e, w1)
      | ((targets, None), w1) \<Rightarrow>
          (let (results, w2) = scatterGather x targets (genericSuccessHandler x) genericErrorHandler w1
           in (genericResult results, w2)))"

definition switchForAin :: "extern \<Rightarrow> fritzImpl \<Rightarrow> string \<Rightarrow> string \<Rightarrow> callable" where
  "switchForAin x fritz ain command w =
     (let (resp, w1) = getWithAin fritz ain command w in (ReadFullyString x resp, w1))"

definition toggleForAin :: "extern \<Rightarrow> fritzImpl \<Rightarrow> string \<Rightarrow> callable" where
  "toggleForAin x fritz ain w =
     (let (resp, w1) = getWithAin fritz ain ''setswitchtoggle'' w in (ReadFullyString x resp, w1))"

definition temperatureForAin :: "extern \<Rightarrow> 'f float64 \<Rightarrow> fritzImpl \<Rightarrow> string \<Rightarrow> 'f \<Rightarrow> callable" where
  "temperatureForAin x fl fritz ain v w =
     (let doubledValue = times2 fl v;
          rounded = Round fl doubledValue;
          (resp, w1) = getWithAinAndParam fritz ain ''sethkrtsoll'' (Sprintf_d rounded) w
      in (ReadFullyString x resp, w1))"

definition SwitchOn :: "extern \<Rightarrow> fritzImpl \<Rightarrow> string list \<Rightarrow> world \<Rightarrow> error option \<times> world" where
  "SwitchOn x fritz names w =
     doConcurrently x fritz (\<lambda>ain. switchForAin x fritz ain ''setswitchon'') names w"

definition SwitchOff :: "extern \<Rightarrow> fritzImpl \<Rightarrow> string list \<Rightarrow> world \<Rightarrow> error option \<times> world" where
  "SwitchOff x fritz names w =
     doConcurrently x fritz (\<lambda>ain. switchForAin x fritz ain ''setswitchoff'') names w"

definition Toggle :: "extern \<Rightarrow> fritzImpl \<Rightarrow> string list \<Rightarrow> world \<Rightarrow> error option \<times> world" where
  "Toggle x fritz names w =
     doConcurrently x fritz (\<lambda>ain. toggleForAin x fritz ain) names w"

definition Temperature ::
  "extern \<Rightarrow> 'f float64 \<Rightarrow> fritzImpl \<Rightarrow> 'f \<Rightarrow> string list \<Rightarrow> world \<Rightarrow> error option \<times> world" where
  "Temperature x fl fritz v names w =
     doConcurrently x fritz (\<lambda>ain. temperatureForAin x fl fritz ain v) names w"

section \<open>The directory as the specification words it\<close>

text \<open>
  The specification has the directory strip all whitespace from an address. These two
  definitions follow its words, for comparison with \<open>fillTable\<close>: the whitespace
  characters of one byte are tab, line feed, vertical tab, form feed, carriage return and
  space.
\<close>

definition isSpace_spec :: "char \<Rightarrow> bool" where
  "isSpace_spec c \<longleftrightarrow> c \<in> set [CHR 0x09, CHR 0x0A, CHR 0x0B, CHR 0x0C, CHR 0x0D, CHR '' '']"

definition stripWhitespace_spec :: "string \<Rightarrow> string" where
  "stripWhitespace_spec s = filter (\<lambda>c. \<not> isSpace_spec c) s"

section \<open>A gateway with two devices\<close>

text \<open>
  Concrete values on which the statements below are evaluated: a gateway that answers
  every request with the body \<open>1\<close>, the listing of the scenario in the specification
  (a lamp and a plug), and variants of the decoder: one that fails, one whose listing has
  a tab in an address, one whose listing has the name \<open>Lamp\<close> twice.
\<close>

definition demoFritz :: fritzImpl where
  "demoFritz =
     \<lparr>client = \<lparr>Config = \<lparr>Protocol = ''http'', Host = ''fritz.box'', Port = ''80''\<rparr>,
                SessionInfo = \<lparr>SID = ''0a1b''\<rparr>,
                HTTPClient = (\<lambda>sent url. Inr \<lparr>StatusCode = 200, Body = ''1''\<rparr>)\<rparr>\<rparr>"

definition demoListing :: Devicelist where
  "demoListing =
     \<lparr>Devices = [\<lparr>Name = ''Lamp'', Identifier = ''11 657 0018736''\<rparr>,
                 \<lparr>Name = ''Plug'', Identifier = ''11 657 0018737''\<rparr>]\<rparr>"

definition demoExtern :: extern where
  "demoExtern =
     \<lparr>xmlDecode = (\<lambda>body. (demoListing, None)),
      ReadFullyString = (\<lambda>r. case r of Inl e \<Rightarrow> ([], Some e) | Inr resp \<Rightarrow> (Body resp, None)),
      TrimSpace = (\<lambda>s. s),
      mapOrder = [1],
      completion = [1]\<rparr>"

definition demoWorld :: world where
  "demoWorld = \<lparr>requests = [], logged = [], executed = []\<rparr>"

definition brokenExtern :: extern where
  "brokenExtern =
     demoExtern\<lparr>xmlDecode := (\<lambda>body. (\<lparr>Devices = []\<rparr>, Some (otherError 1 ''unexpected EOF'')))\<rparr>"

definition tabExtern :: extern where
  "tabExtern =
     demoExtern\<lparr>xmlDecode :=
       (\<lambda>body. (\<lparr>Devices = [\<lparr>Name = ''Lamp'',
                                  Identifier = [CHR ''1'', CHR 0x09, CHR ''2'', CHR '' '', CHR ''3'']\<rparr>]\<rparr>,
                 None))\<rparr>"

definition twinExtern :: extern where
  "twinExtern =
     demoExtern\<lparr>xmlDecode :=
       (\<lambda>body. (\<lparr>Devices = [\<lparr>Name = ''Lamp'', Identifier = ''1 1''\<rparr>,
                              \<lparr>Name = ''Plug'', Identifier = ''2 2''\<rparr>,
                              \<lparr>Name = ''Lamp'', Identifier = ''3 3''\<rparr>]\<rparr>, None))\<rparr>"

section \<open>Orders, joins and the loops\<close>

lemma mset_arrange: "mset (arrange ps xs) = mset xs"
proof (induction ps xs rule: arrange.induct)
  case (3 p ps x xs)
  let ?ys = "x # xs"
  let ?i = "p mod length ?ys"
  have i: "?i < length ?ys" by simp
  have "mset ?ys = mset (take ?i ?ys @ ?ys ! ?i # drop (Suc ?i) ?ys)"
    using id_take_nth_drop [OF i] by simp
  with 3 show ?case by (simp add: Let_def del: take_Suc_Cons nth_Cons_Suc drop_Suc_Cons)
qed simp_all

lemma set_arrange: "set (arrange ps xs) = set xs"
  using mset_arrange [of ps xs] by (metis set_mset_mset)

lemma distinct_arrange: "distinct (arrange ps xs) = distinct xs"
  using mset_arrange [of ps xs] by (metis mset_eq_imp_distinct_iff)

lemma length_arrange: "length (arrange ps xs) = length xs"
  using mset_arrange [of ps xs] by (metis size_mset)

lemma collectErrs_eq:
  "collectErrs rs errs = errs @ concat (map (\<lambda>r. case err r of Some e \<Rightarrow> [e] | None \<Rightarrow> []) rs)"
  by (induction rs arbitrary: errs) (auto split: option.splits)

lemma collectErrs_Nil_iff: "collectErrs rs [] = [] \<longleftrightarrow> (\<forall>r\<in>set rs. err r = None)"
  by (induction rs) (auto simp: collectErrs_eq split: option.splits)

lemma genericResult_Some:
  "collectErrs results [] \<noteq> [] \<Longrightarrow>
   genericResult results =
     Some (errorString (''Not all devices could be processed! Nested errors are: ''
             @ Join (map Error (collectErrs results [])) ''; ''))"
  by (simp add: genericResult_def truncateToOne_def ErrorMessages_def Let_def)

lemma Replace_space: "Replace s CHR '' '' [] = filter (\<lambda>c. c \<noteq> CHR '' '') s"
  by (induction s) (simp_all add: Replace_def)

lemma map_of_fillTable:
  "map_of (fillTable devs t) =
     map_of t ++ map_of (rev (map (\<lambda>dev. (Name dev, Replace (Identifier dev) CHR '' '' [])) devs))"
proof (induction devs arbitrary: t)
  case (Cons d ds)
  show ?case
    by (simp add: Cons update_conv' map_add_upd_left fun_eq_iff map_add_def split: option.splits)
qed simp

lemma distinct_fillTable: "distinct (map fst t) \<Longrightarrow> distinct (map fst (fillTable devs t))"
  by (induction devs arbitrary: t) (simp_all add: distinct_update)

lemma keys_fillTable: "fst ` set (fillTable devs t) = fst ` set t \<union> Name ` set devs"
proof (induction devs arbitrary: t)
  case (Cons d ds)
  have "fst ` set (AList.update (Name d) (Replace (Identifier d) CHR '' '' []) t)
          = insert (Name d) (fst ` set t)"
    using dom_update [of "Name d" _ t] by (simp add: dom_map_of_conv_image_fst)
  with Cons show ?case by auto
qed simp

lemma set_update_cases:
  "(n, a) \<in> set (AList.update k v t) \<Longrightarrow> (n, a) \<in> set t \<or> (n, a) = (k, v)"
  by (induction t) (auto split: if_splits)

lemma entries_fillTable:
  "(n, a) \<in> set (fillTable devs t) \<Longrightarrow>
   (n, a) \<in> set t \<or> (\<exists>dev\<in>set devs. Name dev = n \<and> a = Replace (Identifier dev) CHR '' '' [])"
proof (induction devs arbitrary: t)
  case (Cons d ds)
  from Cons.IH [OF Cons.prems [simplified]]
  show ?case
  proof
    assume "(n, a) \<in> set (AList.update (Name d) (Replace (Identifier d) CHR '' '' []) t)"
    then have "(n, a) \<in> set t \<or> (n, a) = (Name d, Replace (Identifier d) CHR '' '' [])"
      by (rule set_update_cases)
    then show ?thesis by auto
  qed auto
qed simp

section \<open>The directory fetch\<close>

lemma ListDevices_world:
  "ListDevices x fritz w = (r, w1) \<Longrightarrow>
   w1 = w\<lparr>requests := requests w @ [Protocol (Config (client fritz)) @ ''://''
              @ Host (Config (client fritz)) @ '':'' @ Port (Config (client fritz))
              @ ''//webservices/homeautoswitch.lua?switchcmd=getdevicelistinfos&sid=''
              @ SID (SessionInfo (client fritz))]\<rparr>"
  by (auto simp: ListDevices_def get_def HTTPClient_Get_def Let_def split: sum.splits prod.splits)

text \<open>The pointer that \<open>ListDevices\<close> returns is nil only together with an error.\<close>

lemma ListDevices_pointer: "ListDevices x fritz w = ((None, e), w1) \<Longrightarrow> e \<noteq> None"
  by (auto simp: ListDevices_def Let_def split: sum.splits prod.splits)

lemma getNameToAinTable_world:
  "getNameToAinTable x fritz w = (r, w1) \<Longrightarrow>
   w1 = w\<lparr>requests := requests w @ [Protocol (Config (client fritz)) @ ''://''
              @ Host (Config (client fritz)) @ '':'' @ Port (Config (client fritz))
              @ ''//webservices/homeautoswitch.lua?switchcmd=getdevicelistinfos&sid=''
              @ SID (SessionInfo (client fritz))]\<rparr>"
  by (auto simp: getNameToAinTable_def split: prod.splits option.splits dest!: ListDevices_world)

lemma getNameToAinTable_distinct:
  "getNameToAinTable x fritz w = ((table, e), w1) \<Longrightarrow> distinct (map fst table)"
  by (auto simp: getNameToAinTable_def distinct_fillTable split: prod.splits option.splits)


lemma getNameToAinTable_success:
  "ListDevices x fritz w = ((Some dl, None), w1) \<Longrightarrow>
   getNameToAinTable x fritz w = ((fillTable (Devices dl) [], None), w1)"
  by (simp add: getNameToAinTable_def)



section \<open>The loop over the requested names\<close>

lemma hd_filter_split:
  "names = pre @ m # post \<Longrightarrow> \<forall>n\<in>set pre. \<not> P n \<Longrightarrow> P m \<Longrightarrow> hd (filter P names) = m"
  by (induction pre arbitrary: names) auto

text \<open>The loop stops at the first requested name that the table does not resolve.\<close>

lemma buildTargets_missing:
  assumes "\<exists>n\<in>set names. map_of table n = None \<or> map_of table n = Some []"
  shows "\<exists>pre m post. names = pre @ m # post
           \<and> (\<forall>n\<in>set pre. \<exists>a. map_of table n = Some a \<and> a \<noteq> [])
           \<and> (map_of table m = None \<or> map_of table m = Some [])
           \<and> buildTargets x table workFactory names targets =
               ([], Some (errorString (''No device found with name '' @ [CHR 0x27] @ m @ [CHR 0x27]
                  @ ''. Available devices are '' @ Join (Quote (StringKeys x table)) '', '')))"
  using assms
proof (induction names arbitrary: targets)
  case Nil
  then show ?case by simp
next
  case (Cons n names)
  show ?case
  proof (cases "map_of table n = None \<or> map_of table n = Some []")
    case True
    then have "buildTargets x table workFactory (n # names) targets =
               ([], Some (errorString (''No device found with name '' @ [CHR 0x27] @ n @ [CHR 0x27]
                  @ ''. Available devices are '' @ Join (Quote (StringKeys x table)) '', '')))"
      by (auto simp: Let_def)
    with True show ?thesis by (intro exI [of _ "[]"] exI [of _ n] exI [of _ names]) simp
  next
    case False
    then obtain a where a: "map_of table n = Some a" "a \<noteq> []" by auto
    from False Cons.prems have "\<exists>n\<in>set names. map_of table n = None \<or> map_of table n = Some []"
      by auto
    from Cons.IH [OF this, of "AList.update n (workFactory a) targets"]
    obtain pre m post where h: "names = pre @ m # post"
      "\<forall>n\<in>set pre. \<exists>a. map_of table n = Some a \<and> a \<noteq> []"
      "map_of table m = None \<or> map_of table m = Some []"
      "buildTargets x table workFactory names (AList.update n (workFactory a) targets) =
               ([], Some (errorString (''No device found with name '' @ [CHR 0x27] @ m @ [CHR 0x27]
                  @ ''. Available devices are '' @ Join (Quote (StringKeys x table)) '', '')))"
      by blast
    have "buildTargets x table workFactory (n # names) targets =
          buildTargets x table workFactory names (AList.update n (workFactory a) targets)"
      using a by simp
    with h a show ?thesis
      by (intro exI [of _ "n # pre"] exI [of _ m] exI [of _ post]) auto
  qed
qed

text \<open>When every requested name resolves, the targets are keyed by the requested names.\<close>

lemma buildTargets_resolved:
  assumes "\<forall>n\<in>set names. \<exists>a. map_of table n = Some a \<and> a \<noteq> []"
  shows "\<exists>targets'. buildTargets x table workFactory names targets = (targets', None)
           \<and> fst ` set targets' = fst ` set targets \<union> set names
           \<and> (distinct (map fst targets) \<longrightarrow> distinct (map fst targets'))"
  using assms
proof (induction names arbitrary: targets)
  case Nil
  then show ?case by simp
next
  case (Cons n names)
  then obtain a where a: "map_of table n = Some a" "a \<noteq> []" by auto
  from Cons.prems have "\<forall>n\<in>set names. \<exists>a. map_of table n = Some a \<and> a \<noteq> []" by simp
  from Cons.IH [OF this, of "AList.update n (workFactory a) targets"]
  obtain t' where t': "buildTargets x table workFactory names (AList.update n (workFactory a) targets) = (t', None)"
    "fst ` set t' = fst ` set (AList.update n (workFactory a) targets) \<union> set names"
    "distinct (map fst (AList.update n (workFactory a) targets)) \<longrightarrow> distinct (map fst t')"
    by blast
  have "buildTargets x table workFactory (n # names) targets =
        buildTargets x table workFactory names (AList.update n (workFactory a) targets)"
    using a by simp
  moreover have "fst ` set (AList.update n (workFactory a) targets) = insert n (fst ` set targets)"
    using dom_update [of n "workFactory a" targets] by (simp add: dom_map_of_conv_image_fst)
  ultimately show ?case using t' by (auto simp: distinct_update)
qed

lemma doConcurrently_missing:
  assumes tbl: "getNameToAinTable x fritz w = ((table, None), w1)"
      and bad: "\<exists>n\<in>set names. map_of table n = None \<or> map_of table n = Some []"
  shows "doConcurrently x fritz workFactory names w =
           (Some (errorString (''No device found with name '' @ [CHR 0x27]
              @ hd (filter (\<lambda>n. map_of table n = None \<or> map_of table n = Some []) names)
              @ [CHR 0x27] @ ''. Available devices are ''
              @ Join (map (\<lambda>k. [CHR 0x22] @ k @ [CHR 0x22]) (StringKeys x table)) '', '')), w1)"
proof -
  from buildTargets_missing [OF bad, of x workFactory "[]"]
  obtain pre m post where h: "names = pre @ m # post"
      "\<forall>n\<in>set pre. \<exists>a. map_of table n = Some a \<and> a \<noteq> []"
      "map_of table m = None \<or> map_of table m = Some []"
      "buildTargets x table workFactory names [] =
               ([], Some (errorString (''No device found with name '' @ [CHR 0x27] @ m @ [CHR 0x27]
                  @ ''. Available devices are '' @ Join (Quote (StringKeys x table)) '', '')))"
    by blast
  have "hd (filter (\<lambda>n. map_of table n = None \<or> map_of table n = Some []) names) = m"
    by (rule hd_filter_split [OF h(1)]) (use h in auto)
  then show ?thesis
    using h(4) tbl by (simp add: doConcurrently_def buildBacklog_def Quote_def)
qed

section \<open>Running the targets: one result for each\<close>

lemma length_gather: "length (fst (gather targets onSuccess onError w)) = length targets"
proof (induction targets arbitrary: w)
  case Nil
  then show ?case by simp
next
  case (Cons t targets)
  obtain key work where t: "t = (key, work)" by (cases t) auto
  obtain message e w1 where a: "work (w\<lparr>executed := executed w @ [key]\<rparr>) = ((message, e), w1)"
    by (metis surj_pair)
  obtain res w2 where b: "deliver onSuccess onError (key, message, e) w1 = (res, w2)"
    by (metis surj_pair)
  obtain ress w3 where c: "gather targets onSuccess onError w2 = (ress, w3)"
    by (metis surj_pair)
  from Cons [of w2] c have "length ress = length targets" by simp
  then show ?case by (simp add: t a b c)
qed

lemma length_scatterGather:
  "length (fst (scatterGather x targets onSuccess onError w)) = length targets"
  by (simp add: scatterGather_def length_gather length_arrange)

section \<open>Unknown names\<close>

text \<open>
  C1. The directory has been fetched and some requested name is absent from it or maps to
  the empty address. Then every dispatch (the generic one and \<open>SwitchOn\<close>,
  \<open>SwitchOff\<close>, \<open>Toggle\<close>, \<open>Temperature\<close>) returns the error whose message names the
  first such requested name and lists the keys of the directory, each between double
  quotes, joined by a comma and a space; the listed keys are exactly the known names, each
  once. The world it leaves is the world right after the directory fetch: no unit of work
  has run, nothing has been logged, and the only request sent is the one for the listing.
\<close>

theorem unknown_name_aborts_dispatch:
  assumes tbl: "getNameToAinTable x fritz w = ((table, None), w1)"
      and bad: "\<exists>n\<in>set names. map_of table n = None \<or> map_of table n = Some []"
  shows "(\<forall>run \<in> {doConcurrently x fritz workFactory, SwitchOn x fritz, SwitchOff x fritz,
                      Toggle x fritz, Temperature x fl fritz v}.
            run names w =
              (Some (errorString (''No device found with name '' @ [CHR 0x27]
                 @ hd (filter (\<lambda>n. map_of table n = None \<or> map_of table n = Some []) names)
                 @ [CHR 0x27] @ ''. Available devices are ''
                 @ Join (map (\<lambda>k. [CHR 0x22] @ k @ [CHR 0x22]) (StringKeys x table)) '', '')), w1))
         \<and> hd (filter (\<lambda>n. map_of table n = None \<or> map_of table n = Some []) names) \<in> set names
         \<and> set (StringKeys x table) = fst ` set table \<and> distinct (StringKeys x table)
         \<and> executed w1 = executed w \<and> logged w1 = logged w
         \<and> requests w1 = requests w @ [Protocol (Config (client fritz)) @ ''://''
              @ Host (Config (client fritz)) @ '':'' @ Port (Config (client fritz))
              @ ''//webservices/homeautoswitch.lua?switchcmd=getdevicelistinfos&sid=''
              @ SID (SessionInfo (client fritz))]"
proof -
  note d = doConcurrently_missing [OF tbl bad]
  have runs: "\<forall>run \<in> {doConcurrently x fritz workFactory, SwitchOn x fritz, SwitchOff x fritz,
                      Toggle x fritz, Temperature x fl fritz v}.
            run names w =
              (Some (errorString (''No device found with name '' @ [CHR 0x27]
                 @ hd (filter (\<lambda>n. map_of table n = None \<or> map_of table n = Some []) names)
                 @ [CHR 0x27] @ ''. Available devices are ''
                 @ Join (map (\<lambda>k. [CHR 0x22] @ k @ [CHR 0x22]) (StringKeys x table)) '', '')), w1)"
    by (simp add: d SwitchOn_def SwitchOff_def Toggle_def Temperature_def)
  from bad have "filter (\<lambda>n. map_of table n = None \<or> map_of table n = Some []) names \<noteq> []"
    by (auto simp: filter_empty_conv)
  then have "hd (filter (\<lambda>n. map_of table n = None \<or> map_of table n = Some []) names)
      \<in> set (filter (\<lambda>n. map_of table n = None \<or> map_of table n = Some []) names)"
    by (rule hd_in_set)
  then have mem: "hd (filter (\<lambda>n. map_of table n = None \<or> map_of table n = Some []) names) \<in> set names"
    by simp
  have keys: "set (StringKeys x table) = fst ` set table" "distinct (StringKeys x table)"
    using getNameToAinTable_distinct [OF tbl]
    by (simp_all add: StringKeys_def set_arrange distinct_arrange)
  have w1: "w1 = w\<lparr>requests := requests w @ [Protocol (Config (client fritz)) @ ''://''
              @ Host (Config (client fritz)) @ '':'' @ Port (Config (client fritz))
              @ ''//webservices/homeautoswitch.lua?switchcmd=getdevicelistinfos&sid=''
              @ SID (SessionInfo (client fritz))]\<rparr>"
    by (rule getNameToAinTable_world [OF tbl])
  show ?thesis
    using runs mem keys by (simp add: w1)
qed

theorem unknown_name_aborts_dispatch_witness:
  "getNameToAinTable demoExtern demoFritz demoWorld =
     (([(''Lamp'', ''116570018736''), (''Plug'', ''116570018737'')], None),
      \<lparr>requests = [''http://fritz.box:80//webservices/homeautoswitch.lua?switchcmd=getdevicelistinfos&sid=0a1b''],
        logged = [], executed = []\<rparr>)
   \<and> map_of [(''Lamp'', ''116570018736''), (''Plug'', ''116570018737'')] ''Fan'' = None
   \<and> SwitchOn demoExtern demoFritz [''Lamp'', ''Fan''] demoWorld =
       (Some (errorString (''No device found with name '' @ [CHR 0x27] @ ''Fan'' @ [CHR 0x27]
          @ ''. Available devices are '' @ [CHR 0x22] @ ''Plug'' @ [CHR 0x22] @ '', ''
          @ [CHR 0x22] @ ''Lamp'' @ [CHR 0x22])),
        \<lparr>requests = [''http://fritz.box:80//webservices/homeautoswitch.lua?switchcmd=getdevicelistinfos&sid=0a1b''],
        logged = [], executed = []\<rparr>)"
proof -
  let ?t = "[(''Lamp'', ''116570018736''), (''Plug'', ''116570018737'')]"
  let ?w1 = "\<lparr>requests = [''http://fritz.box:80//webservices/homeautoswitch.lua?switchcmd=getdevicelistinfos&sid=0a1b''],
        logged = [], executed = []\<rparr>"
  have h1: "getNameToAinTable demoExtern demoFritz demoWorld = ((?t, None), ?w1)"
    by (simp add: getNameToAinTable_def ListDevices_def get_def HTTPClient_Get_def demoExtern_def
        demoFritz_def demoWorld_def demoListing_def Replace_def)
  have h2: "\<exists>n\<in>set [''Lamp'', ''Fan'']. map_of ?t n = None \<or> map_of ?t n = Some []"
    by simp
  have k: "StringKeys demoExtern ?t = [''Plug'', ''Lamp'']"
    by (simp add: StringKeys_def demoExtern_def)
  from unknown_name_aborts_dispatch [OF h1 h2, of "\<lambda>ain w. (([], None), w)" "\<lparr>times2 = id, Round = id\<rparr>" 0]
  have "SwitchOn demoExtern demoFritz [''Lamp'', ''Fan''] demoWorld =
       (Some (errorString (''No device found with name '' @ [CHR 0x27]
          @ hd (filter (\<lambda>n. map_of ?t n = None \<or> map_of ?t n = Some []) [''Lamp'', ''Fan''])
          @ [CHR 0x27] @ ''. Available devices are ''
          @ Join (map (\<lambda>k. [CHR 0x22] @ k @ [CHR 0x22]) (StringKeys demoExtern ?t)) '', '')), ?w1)"
    by blast
  then have "SwitchOn demoExtern demoFritz [''Lamp'', ''Fan''] demoWorld =
       (Some (errorString (''No device found with name '' @ [CHR 0x27] @ ''Fan'' @ [CHR 0x27]
          @ ''. Available devices are '' @ [CHR 0x22] @ ''Plug'' @ [CHR 0x22] @ '', ''
          @ [CHR 0x22] @ ''Lamp'' @ [CHR 0x22])), ?w1)"
    by (simp add: k)
  with h1 show ?thesis by simp
qed

section \<open>A failed directory fetch\<close>



text \<open>
  C10. When the transport answers the listing request with a response and the decoder
  reports an error on its body, \<open>ListDevices\<close> returns a non-nil pointer (to whatever the
  decoder left in the device list) together with that decoding error.
\<close>

theorem decode_failure_keeps_pointer:
  assumes "get fritz ''getdevicelistinfos'' w = (Inr resp, w1)"
      and "xmlDecode x (Body resp) = (deviceList, Some errDecode)"
  shows "ListDevices x fritz w = ((Some deviceList, Some errDecode), w1)"
  using assms by (simp add: ListDevices_def)

theorem decode_failure_keeps_pointer_witness:
  "get demoFritz ''getdevicelistinfos'' demoWorld =
     (Inr \<lparr>StatusCode = 200, Body = ''1''\<rparr>,
      \<lparr>requests = [''http://fritz.box:80//webservices/homeautoswitch.lua?switchcmd=getdevicelistinfos&sid=0a1b''],
        logged = [], executed = []\<rparr>)
   \<and> xmlDecode brokenExtern (Body \<lparr>StatusCode = 200, Body = ''1''\<rparr>) =
       (\<lparr>Devices = []\<rparr>, Some (otherError 1 ''unexpected EOF''))
   \<and> fst (ListDevices brokenExtern demoFritz demoWorld) =
       (Some \<lparr>Devices = []\<rparr>, Some (otherError 1 ''unexpected EOF''))"
proof -
  have h1: "get demoFritz ''getdevicelistinfos'' demoWorld =
     (Inr \<lparr>StatusCode = 200, Body = ''1''\<rparr>,
      \<lparr>requests = [''http://fritz.box:80//webservices/homeautoswitch.lua?switchcmd=getdevicelistinfos&sid=0a1b''],
        logged = [], executed = []\<rparr>)"
    by (simp add: get_def HTTPClient_Get_def demoFritz_def demoWorld_def)
  have h2: "xmlDecode brokenExtern (Body \<lparr>StatusCode = 200, Body = ''1''\<rparr>) =
       (\<lparr>Devices = []\<rparr>, Some (otherError 1 ''unexpected EOF''))"
    by (simp add: brokenExtern_def)
  from decode_failure_keeps_pointer [OF h1 h2] h1 h2 show ?thesis by simp
qed

section \<open>The combined error\<close>

text \<open>
  C4. \<open>genericResult\<close> returns no error exactly when no result of the batch carries an
  error: nil when every result's error is nil, a non-nil combined error as soon as one
  result carries an error.
\<close>

theorem no_error_iff_all_succeeded:
  "genericResult results = None \<longleftrightarrow> (\<forall>r\<in>set results. err r = None)"
  by (auto simp: genericResult_def truncateToOne_def Let_def collectErrs_Nil_iff
      split: option.splits if_splits)

theorem no_error_iff_all_succeeded_witness:
  "genericResult [\<lparr>msg = ''1'', err = None\<rparr>, \<lparr>msg = ''0'', err = None\<rparr>] = None
   \<and> genericResult [\<lparr>msg = ''1'', err = None\<rparr>, \<lparr>msg = [], err = Some (errorString ''x'')\<rparr>] \<noteq> None"
  using no_error_iff_all_succeeded [of "[\<lparr>msg = ''1'', err = None\<rparr>, \<lparr>msg = ''0'', err = None\<rparr>]"]
    no_error_iff_all_succeeded [of "[\<lparr>msg = ''1'', err = None\<rparr>, \<lparr>msg = [], err = Some (errorString ''x'')\<rparr>]"]
  by simp

text \<open>What a handler returns for one outcome does not depend on the world it logs to.\<close>

lemma handler_result:
  "fst (case e of None \<Rightarrow> genericSuccessHandler x key message w
        | Some e' \<Rightarrow> genericErrorHandler key message e' w) =
     \<lparr>msg = message,
      err = map_option (\<lambda>e'. errorString (''error toggling device '' @ [CHR 0x27] @ key
              @ [CHR 0x27] @ '': '' @ Error e')) e\<rparr>"
  by (cases e) (simp_all add: genericSuccessHandler_def genericErrorHandler_def)

lemma handled_results:
  assumes "list_all2 (\<lambda>(key, message, e) r. \<exists>w. r =
               fst (case e of None \<Rightarrow> genericSuccessHandler x key message w
                    | Some e' \<Rightarrow> genericErrorHandler key message e' w))
             outcomes results"
  shows "results = map (\<lambda>(key, message, e). \<lparr>msg = message,
      err = map_option (\<lambda>e'. errorString (''error toggling device '' @ [CHR 0x27] @ key
              @ [CHR 0x27] @ '': '' @ Error e')) e\<rparr>) outcomes"
  using assms
proof (induction rule: list_all2_induct)
  case Nil
  then show ?case by simp
next
  case (Cons outcome r outcomes results)
  obtain key message e where o: "outcome = (key, message, e)" by (cases outcome) auto
  from Cons show ?case by (auto simp: o handler_result)
qed

lemma wrapped_messages:
  "map Error (concat (map (\<lambda>r. case err r of Some e \<Rightarrow> [e] | None \<Rightarrow> [])
      (map (\<lambda>(key, message, e). \<lparr>msg = message,
         err = map_option (\<lambda>e'. errorString (''error toggling device '' @ [CHR 0x27] @ key
              @ [CHR 0x27] @ '': '' @ Error e')) e\<rparr>) outcomes))) =
   [''error toggling device '' @ [CHR 0x27] @ key @ [CHR 0x27] @ '': '' @ Error e.
      (key, message, Some e) \<leftarrow> outcomes]"
  by (induction outcomes) (auto split: option.splits)

text \<open>
  C3. A batch of outcomes (name, message, error) is handed to the handlers, an outcome
  without error to \<open>genericSuccessHandler\<close> and one with an error to
  \<open>genericErrorHandler\<close>, and the results to \<open>genericResult\<close>. The result of an outcome
  with an error carries the error "error toggling device '<name>': <original message>",
  whatever the command was; the result of an outcome without error carries none. When some
  outcome has an error, \<open>genericResult\<close> returns the error whose message is "Not all
  devices could be processed! Nested errors are: " followed by the wrapped messages of
  the failed outcomes, in the order of the batch, joined by "; ".
\<close>

theorem failures_wrapped_and_joined:
  assumes "list_all2 (\<lambda>(key, message, e) r. \<exists>w. r =
               fst (case e of None \<Rightarrow> genericSuccessHandler x key message w
                    | Some e' \<Rightarrow> genericErrorHandler key message e' w))
             outcomes results"
      and "\<exists>outcome\<in>set outcomes. snd (snd outcome) \<noteq> None"
  shows "map err results =
           map (\<lambda>(key, message, e).
                  case e of None \<Rightarrow> None
                  | Some e' \<Rightarrow> Some (errorString (''error toggling device '' @ [CHR 0x27] @ key
                                 @ [CHR 0x27] @ '': '' @ Error e'))) outcomes
         \<and> genericResult results =
             Some (errorString (''Not all devices could be processed! Nested errors are: ''
               @ Join [''error toggling device '' @ [CHR 0x27] @ key @ [CHR 0x27] @ '': '' @ Error e.
                         (key, message, Some e) \<leftarrow> outcomes] ''; ''))"
proof -
  note r = handled_results [OF assms(1)]
  have a: "map err results =
           map (\<lambda>(key, message, e).
                  case e of None \<Rightarrow> None
                  | Some e' \<Rightarrow> Some (errorString (''error toggling device '' @ [CHR 0x27] @ key
                                 @ [CHR 0x27] @ '': '' @ Error e'))) outcomes"
    unfolding r by (auto split: option.splits)
  from assms(2) have "\<exists>r\<in>set results. err r \<noteq> None"
    unfolding r by force
  then have ne: "collectErrs results [] \<noteq> []"
    by (simp add: collectErrs_Nil_iff)
  have "map Error (collectErrs results []) =
     [''error toggling device '' @ [CHR 0x27] @ key @ [CHR 0x27] @ '': '' @ Error e.
                         (key, message, Some e) \<leftarrow> outcomes]"
    unfolding collectErrs_eq r using wrapped_messages [of outcomes] by simp
  then have "genericResult results =
             Some (errorString (''Not all devices could be processed! Nested errors are: ''
               @ Join [''error toggling device '' @ [CHR 0x27] @ key @ [CHR 0x27] @ '': '' @ Error e.
                         (key, message, Some e) \<leftarrow> outcomes] ''; ''))"
    by (simp only: genericResult_Some [OF ne])
  with a show ?thesis by blast
qed

theorem failures_wrapped_and_joined_witness:
  "genericResult
       [fst (genericErrorHandler ''Lamp'' [] (otherError 2 ''timeout'') demoWorld),
        fst (genericSuccessHandler demoExtern ''Plug'' ''1'' demoWorld),
        fst (genericErrorHandler ''Fan'' [] (otherError 3 ''refused'') demoWorld)] =
       Some (errorString ''Not all devices could be processed! Nested errors are: error toggling device 'Lamp': timeout; error toggling device 'Fan': refused'')
   \<and> map err
       [fst (genericErrorHandler ''Lamp'' [] (otherError 2 ''timeout'') demoWorld),
        fst (genericSuccessHandler demoExtern ''Plug'' ''1'' demoWorld),
        fst (genericErrorHandler ''Fan'' [] (otherError 3 ''refused'') demoWorld)] =
       [Some (errorString ''error toggling device 'Lamp': timeout''), None,
        Some (errorString ''error toggling device 'Fan': refused'')]"
proof -
  let ?os = "[(''Lamp'', [], Some (otherError 2 ''timeout'')), (''Plug'', ''1'', None),
      (''Fan'', [], Some (otherError 3 ''refused''))]"
  let ?rs = "[fst (genericErrorHandler ''Lamp'' [] (otherError 2 ''timeout'') demoWorld),
        fst (genericSuccessHandler demoExtern ''Plug'' ''1'' demoWorld),
        fst (genericErrorHandler ''Fan'' [] (otherError 3 ''refused'') demoWorld)]"
  have h1: "list_all2 (\<lambda>(key, message, e) r. \<exists>w. r =
               fst (case e of None \<Rightarrow> genericSuccessHandler demoExtern key message w
                    | Some e' \<Rightarrow> genericErrorHandler key message e' w)) ?os ?rs"
    by (simp add: genericSuccessHandler_def genericErrorHandler_def)
  have h2: "\<exists>outcome\<in>set ?os. snd (snd outcome) \<noteq> None"
    by simp
  from failures_wrapped_and_joined [OF h1 h2]
  show ?thesis by simp
qed

section \<open>The directory\<close>

text \<open>
  C6, as amended. When the listing has been fetched and decoded, the directory is keyed by
  the device names, and the address stored under a name is the raw address field of a
  device of that name with every space character (the byte 0x20) removed. Other
  whitespace characters stay in the address.
\<close>

theorem directory_strips_space_characters:
  assumes "ListDevices x fritz w = ((Some dl, None), w1)"
  shows "getNameToAinTable x fritz w = ((fillTable (Devices dl) [], None), w1)
         \<and> fst ` set (fillTable (Devices dl) []) = Name ` set (Devices dl)
         \<and> (\<forall>(n, a) \<in> set (fillTable (Devices dl) []).
               \<exists>dev\<in>set (Devices dl). Name dev = n \<and> a = filter (\<lambda>c. c \<noteq> CHR '' '') (Identifier dev))"
  using getNameToAinTable_success [OF assms] keys_fillTable [of "Devices dl" "[]"]
    entries_fillTable [of _ _ "Devices dl" "[]"]
  by (auto simp: Replace_space)

theorem directory_strips_space_characters_witness:
  "ListDevices demoExtern demoFritz demoWorld =
     ((Some demoListing, None),
      \<lparr>requests = [''http://fritz.box:80//webservices/homeautoswitch.lua?switchcmd=getdevicelistinfos&sid=0a1b''],
        logged = [], executed = []\<rparr>)
   \<and> fst (fst (getNameToAinTable demoExtern demoFritz demoWorld)) =
       [(''Lamp'', ''116570018736''), (''Plug'', ''116570018737'')]"
proof -
  have h: "ListDevices demoExtern demoFritz demoWorld =
     ((Some demoListing, None),
      \<lparr>requests = [''http://fritz.box:80//webservices/homeautoswitch.lua?switchcmd=getdevicelistinfos&sid=0a1b''],
        logged = [], executed = []\<rparr>)"
    by (simp add: ListDevices_def get_def HTTPClient_Get_def demoExtern_def demoFritz_def demoWorld_def)
  have "fillTable (Devices demoListing) [] = [(''Lamp'', ''116570018736''), (''Plug'', ''116570018737'')]"
    by (simp add: demoListing_def Replace_def)
  with directory_strips_space_characters [OF h] h show ?thesis by simp
qed

text \<open>
  The claim as it was stated fails on a listing whose address holds a tab: the tab is
  still in the directory, where stripping all whitespace would have removed it.
\<close>

theorem tab_survives_counterexample:
  "map_of (fst (fst (getNameToAinTable tabExtern demoFritz demoWorld))) ''Lamp''
     = Some [CHR ''1'', CHR 0x09, CHR ''2'', CHR ''3'']
   \<and> stripWhitespace_spec [CHR ''1'', CHR 0x09, CHR ''2'', CHR '' '', CHR ''3''] = ''123''"
  by (simp add: getNameToAinTable_def ListDevices_def get_def HTTPClient_Get_def tabExtern_def
      demoExtern_def demoFritz_def demoWorld_def Replace_def stripWhitespace_spec_def isSpace_spec_def)

text \<open>
  C8. The directory has one entry for each key, and when the listing holds several devices
  of one name, the address of the last of them is the one stored: for a device after
  which no device of the same name follows in the listing, the directory maps its name
  to its address (without spaces).
\<close>

theorem duplicate_names_last_wins:
  assumes "ListDevices x fritz w = ((Some dl, None), w1)"
      and "Devices dl = pre @ dev # post"
      and "\<forall>d\<in>set post. Name d \<noteq> Name dev"
  shows "getNameToAinTable x fritz w = ((fillTable (Devices dl) [], None), w1)
         \<and> distinct (map fst (fillTable (Devices dl) []))
         \<and> map_of (fillTable (Devices dl) []) (Name dev) = Some (Replace (Identifier dev) CHR '' '' [])"
proof -
  have "map_of (rev (map (\<lambda>d. (Name d, Replace (Identifier d) CHR '' '' [])) post)) (Name dev) = None"
    using assms(3) by (auto simp: map_of_eq_None_iff image_iff)
  then have "map_of (fillTable (Devices dl) []) (Name dev) = Some (Replace (Identifier dev) CHR '' '' [])"
    by (simp add: map_of_fillTable assms(2) map_add_def)
  then show ?thesis
    using getNameToAinTable_success [OF assms(1)] distinct_fillTable [of "[]" "Devices dl"] by simp
qed

theorem duplicate_names_last_wins_witness:
  "fst (ListDevices twinExtern demoFritz demoWorld) =
     (Some \<lparr>Devices = [\<lparr>Name = ''Lamp'', Identifier = ''1 1''\<rparr>, \<lparr>Name = ''Plug'', Identifier = ''2 2''\<rparr>,
                       \<lparr>Name = ''Lamp'', Identifier = ''3 3''\<rparr>]\<rparr>, None)
   \<and> fst (fst (getNameToAinTable twinExtern demoFritz demoWorld)) = [(''Lamp'', ''33''), (''Plug'', ''22'')]
   \<and> map_of (fst (fst (getNameToAinTable twinExtern demoFritz demoWorld))) ''Lamp'' = Some ''33''"
proof -
  let ?w1 = "\<lparr>requests = [''http://fritz.box:80//webservices/homeautoswitch.lua?switchcmd=getdevicelistinfos&sid=0a1b''],
        logged = [], executed = []\<rparr>"
  let ?dl = "\<lparr>Devices = [\<lparr>Name = ''Lamp'', Identifier = ''1 1''\<rparr>, \<lparr>Name = ''Plug'', Identifier = ''2 2''\<rparr>,
                       \<lparr>Name = ''Lamp'', Identifier = ''3 3''\<rparr>]\<rparr>"
  have h1: "ListDevices twinExtern demoFritz demoWorld = ((Some ?dl, None), ?w1)"
    by (simp add: ListDevices_def get_def HTTPClient_Get_def twinExtern_def demoExtern_def
        demoFritz_def demoWorld_def)
  have h2: "Devices ?dl = [\<lparr>Name = ''Lamp'', Identifier = ''1 1''\<rparr>, \<lparr>Name = ''Plug'', Identifier = ''2 2''\<rparr>]
              @ \<lparr>Name = ''Lamp'', Identifier = ''3 3''\<rparr> # []"
    by simp
  have h3: "\<forall>d\<in>set ([]::Device list). Name d \<noteq> Name \<lparr>Name = ''Lamp'', Identifier = ''3 3''\<rparr>"
    by simp
  have t: "fillTable (Devices ?dl) [] = [(''Lamp'', ''33''), (''Plug'', ''22'')]"
    by (simp add: Replace_def)
  from duplicate_names_last_wins [OF h1 h2 h3] h1 show ?thesis
    by (simp add: t Replace_def)
qed

section \<open>One outcome for each target\<close>

text \<open>
  What a run of the targets leaves in the world, when the units of work themselves neither
  log nor touch the record of executions (as the units of the four commands, which only
  send a request): each target is run once and each outcome is logged once.
\<close>

lemma handlers_trace:
  "deliver (genericSuccessHandler x) genericErrorHandler (key, message, e) w = (res, w') \<Longrightarrow>
   executed w' = executed w \<and> requests w' = requests w \<and> length (logged w') = Suc (length (logged w))"
  by (cases e)
    (auto simp: deliver_def genericSuccessHandler_def genericErrorHandler_def logger_Success_def
      logger_Warn_def)

lemma gather_trace:
  assumes "\<forall>kw\<in>set targets. \<forall>w'. executed (snd (snd kw w')) = executed w'
             \<and> logged (snd (snd kw w')) = logged w'"
  shows "executed (snd (gather targets (genericSuccessHandler x) genericErrorHandler w))
           = executed w @ map fst targets
         \<and> length (logged (snd (gather targets (genericSuccessHandler x) genericErrorHandler w)))
           = length (logged w) + length targets"
  using assms
proof (induction targets arbitrary: w)
  case Nil
  then show ?case by simp
next
  case (Cons t targets)
  obtain key work where t: "t = (key, work)" by (cases t) auto
  obtain message e w1 where a: "work (w\<lparr>executed := executed w @ [key]\<rparr>) = ((message, e), w1)"
    by (metis surj_pair)
  obtain res w2 where b: "deliver (genericSuccessHandler x) genericErrorHandler (key, message, e) w1 = (res, w2)"
    by (metis surj_pair)
  obtain ress w3 where c: "gather targets (genericSuccessHandler x) genericErrorHandler w2 = (ress, w3)"
    by (metis surj_pair)
  from Cons.prems t have "executed (snd (work (w\<lparr>executed := executed w @ [key]\<rparr>)))
        = executed (w\<lparr>executed := executed w @ [key]\<rparr>)
      \<and> logged (snd (work (w\<lparr>executed := executed w @ [key]\<rparr>)))
        = logged (w\<lparr>executed := executed w @ [key]\<rparr>)"
    by auto
  with a have w1: "executed w1 = executed w @ [key]" "logged w1 = logged w" by simp_all
  from handlers_trace [OF b] w1
  have w2: "executed w2 = executed w @ [key]" "length (logged w2) = Suc (length (logged w))"
    by simp_all
  from Cons.prems have "\<forall>kw\<in>set targets. \<forall>w'. executed (snd (snd kw w')) = executed w'
             \<and> logged (snd (snd kw w')) = logged w'"
    by simp
  from Cons.IH [OF this, of w2] c w2
  have "executed w3 = executed w @ [key] @ map fst targets"
    "length (logged w3) = Suc (length (logged w)) + length targets"
    by simp_all
  then show ?case by (simp add: t a b c)
qed

lemma set_update_subset:
  "set (AList.update k v t) \<subseteq> insert (k, v) (set t)"
  by (induction t) (auto split: if_splits)

lemma buildTargets_works:
  "buildTargets x table workFactory names targets = (targets', e) \<Longrightarrow>
   snd ` set targets' \<subseteq> snd ` set targets \<union> range workFactory"
proof (induction names arbitrary: targets)
  case Nil
  then show ?case by auto
next
  case (Cons n names)
  show ?case
  proof (cases "map_of table n")
    case None
    with Cons.prems have "targets' = []" by (simp add: Let_def)
    then show ?thesis by simp
  next
    case (Some a)
    show ?thesis
    proof (cases "a = []")
      case True
      with Some Cons.prems have "targets' = []" by (simp add: Let_def)
      then show ?thesis by simp
    next
      case False
      with Some Cons.prems
      have "buildTargets x table workFactory names (AList.update n (workFactory a) targets) = (targets', e)"
        by simp
      from Cons.IH [OF this]
      have 1: "snd ` set targets' \<subseteq> snd ` set (AList.update n (workFactory a) targets) \<union> range workFactory" .
      have "snd ` set (AList.update n (workFactory a) targets) \<subseteq> snd ` insert (n, workFactory a) (set targets)"
        by (rule image_mono) (rule set_update_subset)
      then have 2: "snd ` set (AList.update n (workFactory a) targets) \<subseteq> snd ` set targets \<union> range workFactory"
        by auto
      from 1 2 show ?thesis by blast
    qed
  qed
qed


lemma command_trace:
  "executed (snd (switchForAin x fritz ain command w)) = executed w
   \<and> logged (snd (switchForAin x fritz ain command w)) = logged w"
  "executed (snd (toggleForAin x fritz ain w)) = executed w
   \<and> logged (snd (toggleForAin x fritz ain w)) = logged w"
  "executed (snd (temperatureForAin x fl fritz ain v w)) = executed w
   \<and> logged (snd (temperatureForAin x fl fritz ain v w)) = logged w"
  by (simp_all add: switchForAin_def toggleForAin_def temperatureForAin_def getWithAin_def
      getWithAinAndParam_def HTTPClient_Get_def Let_def split: prod.splits)

text \<open>
  C7, as amended. When the directory has been fetched and every requested name resolves
  to a non-empty address, \<open>buildBacklog\<close> returns targets keyed by the requested names,
  one target for each distinct name, and the batch of results that the run of the targets
  hands to \<open>genericResult\<close> has one result for each distinct requested name: its length
  is the number of distinct names, which is less than the length of the name list when a
  name is repeated. For units of work that only send requests, the numbers of executions
  and of logged events of the run are the number of distinct names as well.
\<close>

theorem one_outcome_per_distinct_name:
  assumes tbl: "getNameToAinTable x fritz w = ((table, None), w1)"
      and ok: "\<forall>n\<in>set names. \<exists>a. map_of table n = Some a \<and> a \<noteq> []"
  shows "\<exists>targets. buildBacklog x fritz names workFactory w = ((targets, None), w1)
           \<and> distinct (map fst targets) \<and> set (map fst targets) = set names
           \<and> length (fst (scatterGather x targets (genericSuccessHandler x) genericErrorHandler w1))
               = card (set names)
           \<and> doConcurrently x fritz workFactory names w =
               (genericResult (fst (scatterGather x targets (genericSuccessHandler x) genericErrorHandler w1)),
                snd (scatterGather x targets (genericSuccessHandler x) genericErrorHandler w1))
           \<and> ((\<forall>ain w'. executed (snd (workFactory ain w')) = executed w'
                          \<and> logged (snd (workFactory ain w')) = logged w') \<longrightarrow>
                length (executed (snd (scatterGather x targets (genericSuccessHandler x) genericErrorHandler w1)))
                  = length (executed w1) + card (set names)
                \<and> length (logged (snd (scatterGather x targets (genericSuccessHandler x) genericErrorHandler w1)))
                  = length (logged w1) + card (set names))"
proof -
  from buildTargets_resolved [OF ok, of x workFactory "[]"]
  obtain targets where t: "buildTargets x table workFactory names [] = (targets, None)"
      "fst ` set targets = set names" "distinct (map fst targets)"
    by auto
  have b: "buildBacklog x fritz names workFactory w = ((targets, None), w1)"
    using tbl t(1) by (simp add: buildBacklog_def)
  have n: "length targets = card (set names)"
    using distinct_card [OF t(3)] t(2) by simp
  then have l: "length (fst (scatterGather x targets (genericSuccessHandler x) genericErrorHandler w1))
               = card (set names)"
    by (simp add: length_scatterGather)
  have d: "doConcurrently x fritz workFactory names w =
               (genericResult (fst (scatterGather x targets (genericSuccessHandler x) genericErrorHandler w1)),
                snd (scatterGather x targets (genericSuccessHandler x) genericErrorHandler w1))"
    by (simp add: doConcurrently_def b split: prod.splits)
  have tr: "length (executed (snd (scatterGather x targets (genericSuccessHandler x) genericErrorHandler w1)))
                  = length (executed w1) + card (set names)
                \<and> length (logged (snd (scatterGather x targets (genericSuccessHandler x) genericErrorHandler w1)))
                  = length (logged w1) + card (set names)"
    if quiet: "\<forall>ain w'. executed (snd (workFactory ain w')) = executed w'
                          \<and> logged (snd (workFactory ain w')) = logged w'"
  proof -
    from buildTargets_works [OF t(1)] have sub: "snd ` set targets \<subseteq> range workFactory"
      by simp
    have "\<forall>kw\<in>set targets. \<forall>w'. executed (snd (snd kw w')) = executed w'
             \<and> logged (snd (snd kw w')) = logged w'"
    proof (intro ballI allI)
      fix kw w'
      assume "kw \<in> set targets"
      with sub have "snd kw \<in> range workFactory" by blast
      then obtain ain where "snd kw = workFactory ain" by blast
      with quiet show "executed (snd (snd kw w')) = executed w' \<and> logged (snd (snd kw w')) = logged w'"
        by simp
    qed
    then have "\<forall>kw\<in>set (arrange (completion x) targets).
        \<forall>w'. executed (snd (snd kw w')) = executed w' \<and> logged (snd (snd kw w')) = logged w'"
      by (simp only: set_arrange)
    from gather_trace [OF this, of x w1] show ?thesis
      by (simp add: scatterGather_def length_arrange n)
  qed
  from t(2) have k: "set (map fst targets) = set names" by simp
  show ?thesis
    by (rule exI [of _ targets]) (intro conjI impI; (rule b t(3) k l d | elim conjE tr [THEN conjunct1] tr [THEN conjunct2])?)
qed

theorem one_outcome_per_distinct_name_witness:
  "getNameToAinTable demoExtern demoFritz demoWorld =
     (([(''Lamp'', ''116570018736''), (''Plug'', ''116570018737'')], None),
      \<lparr>requests = [''http://fritz.box:80//webservices/homeautoswitch.lua?switchcmd=getdevicelistinfos&sid=0a1b''],
        logged = [], executed = []\<rparr>)
   \<and> length (executed (snd (Toggle demoExtern demoFritz [''Plug'', ''Lamp'', ''Plug''] demoWorld))) = 2
   \<and> length (logged (snd (Toggle demoExtern demoFritz [''Plug'', ''Lamp'', ''Plug''] demoWorld))) = 2"
proof -
  let ?t = "[(''Lamp'', ''116570018736''), (''Plug'', ''116570018737'')]"
  let ?w1 = "\<lparr>requests = [''http://fritz.box:80//webservices/homeautoswitch.lua?switchcmd=getdevicelistinfos&sid=0a1b''],
        logged = [], executed = []\<rparr>"
  have h1: "getNameToAinTable demoExtern demoFritz demoWorld = ((?t, None), ?w1)"
    by (simp add: getNameToAinTable_def ListDevices_def get_def HTTPClient_Get_def demoExtern_def
        demoFritz_def demoWorld_def demoListing_def Replace_def)
  have h2: "\<forall>n\<in>set [''Plug'', ''Lamp'', ''Plug'']. \<exists>a. map_of ?t n = Some a \<and> a \<noteq> []"
    by simp
  have c: "card (set [''Plug'', ''Lamp'', ''Plug'']) = 2"
    by (subst card_set) simp
  have q: "\<forall>ain w'. executed (snd (toggleForAin demoExtern demoFritz ain w')) = executed w'
              \<and> logged (snd (toggleForAin demoExtern demoFritz ain w')) = logged w'"
    by (simp add: command_trace)
  from one_outcome_per_distinct_name [OF h1 h2, of "toggleForAin demoExtern demoFritz"]
  obtain targets where
    t: "doConcurrently demoExtern demoFritz (toggleForAin demoExtern demoFritz)
          [''Plug'', ''Lamp'', ''Plug''] demoWorld =
          (genericResult (fst (scatterGather demoExtern targets (genericSuccessHandler demoExtern) genericErrorHandler ?w1)),
           snd (scatterGather demoExtern targets (genericSuccessHandler demoExtern) genericErrorHandler ?w1))"
       "(\<forall>ain w'. executed (snd (toggleForAin demoExtern demoFritz ain w')) = executed w'
              \<and> logged (snd (toggleForAin demoExtern demoFritz ain w')) = logged w') \<longrightarrow>
        length (executed (snd (scatterGather demoExtern targets (genericSuccessHandler demoExtern) genericErrorHandler ?w1)))
          = length (executed ?w1) + card (set [''Plug'', ''Lamp'', ''Plug''])
        \<and> length (logged (snd (scatterGather demoExtern targets (genericSuccessHandler demoExtern) genericErrorHandler ?w1)))
          = length (logged ?w1) + card (set [''Plug'', ''Lamp'', ''Plug''])"
    by blast
  from t(2) q have
    "length (executed (snd (scatterGather demoExtern targets (genericSuccessHandler demoExtern) genericErrorHandler ?w1)))
          = length (executed ?w1) + card (set [''Plug'', ''Lamp'', ''Plug''])"
    "length (logged (snd (scatterGather demoExtern targets (genericSuccessHandler demoExtern) genericErrorHandler ?w1)))
          = length (logged ?w1) + card (set [''Plug'', ''Lamp'', ''Plug''])"
    by blast+
  then have
    "length (executed (snd (scatterGather demoExtern targets (genericSuccessHandler demoExtern) genericErrorHandler ?w1))) = 2"
    "length (logged (snd (scatterGather demoExtern targets (genericSuccessHandler demoExtern) genericErrorHandler ?w1))) = 2"
    by (simp_all only: c) simp_all
  moreover have "Toggle demoExtern demoFritz [''Plug'', ''Lamp'', ''Plug''] demoWorld =
     doConcurrently demoExtern demoFritz (toggleForAin demoExtern demoFritz)
          [''Plug'', ''Lamp'', ''Plug''] demoWorld"
    by (simp add: Toggle_def)
  ultimately have
    "length (executed (snd (Toggle demoExtern demoFritz [''Plug'', ''Lamp'', ''Plug''] demoWorld))) = 2"
    "length (logged (snd (Toggle demoExtern demoFritz [''Plug'', ''Lamp'', ''Plug''] demoWorld))) = 2"
    by (simp_all only: t(1) snd_conv)
  with h1 show ?thesis by blast
qed

text \<open>
  The claim as it was stated fails on a list that names the lamp twice: the batch has one
  result, not two, and the toggle sends one command request, runs one unit of work and
  logs one success.
\<close>

theorem repeated_name_counterexample:
  "length (fst (scatterGather demoExtern
       (fst (fst (buildBacklog demoExtern demoFritz [''Lamp'', ''Lamp'']
                   (toggleForAin demoExtern demoFritz) demoWorld)))
       (genericSuccessHandler demoExtern) genericErrorHandler
       (snd (buildBacklog demoExtern demoFritz [''Lamp'', ''Lamp'']
                   (toggleForAin demoExtern demoFritz) demoWorld)))) = 1
   \<and> length [''Lamp'', ''Lamp''] = 2
   \<and> Toggle demoExtern demoFritz [''Lamp'', ''Lamp''] demoWorld =
       (None,
        \<lparr>requests = [''http://fritz.box:80//webservices/homeautoswitch.lua?switchcmd=getdevicelistinfos&sid=0a1b'',
                     ''http://fritz.box:80//webservices/homeautoswitch.lua?ain=116570018736&switchcmd=setswitchtoggle&sid=0a1b''],
         logged = [Success (''Successfully processed device 'Lamp'; response was: 1'')],
         executed = [''Lamp'']\<rparr>)"
proof -
  let ?t = "[(''Lamp'', ''116570018736''), (''Plug'', ''116570018737'')]"
  let ?w1 = "\<lparr>requests = [''http://fritz.box:80//webservices/homeautoswitch.lua?switchcmd=getdevicelistinfos&sid=0a1b''],
        logged = [], executed = []\<rparr>"
  let ?wf = "toggleForAin demoExtern demoFritz"
  have tb: "getNameToAinTable demoExtern demoFritz demoWorld = ((?t, None), ?w1)"
    by (simp add: getNameToAinTable_def ListDevices_def get_def HTTPClient_Get_def demoExtern_def
        demoFritz_def demoWorld_def demoListing_def Replace_def)
  have bt: "buildTargets demoExtern ?t ?wf [''Lamp'', ''Lamp''] [] = ([(''Lamp'', ?wf ''116570018736'')], None)"
    by simp
  have bb: "buildBacklog demoExtern demoFritz [''Lamp'', ''Lamp''] ?wf demoWorld =
      (([(''Lamp'', ?wf ''116570018736'')], None), ?w1)"
    by (simp only: buildBacklog_def tb bt prod.case option.case)
  have run: "toggleForAin demoExtern demoFritz ''116570018736''
               \<lparr>requests = [''http://fritz.box:80//webservices/homeautoswitch.lua?switchcmd=getdevicelistinfos&sid=0a1b''],
                logged = [], executed = [''Lamp'']\<rparr> =
      ((''1'', None),
       \<lparr>requests = [''http://fritz.box:80//webservices/homeautoswitch.lua?switchcmd=getdevicelistinfos&sid=0a1b'',
                     ''http://fritz.box:80//webservices/homeautoswitch.lua?ain=116570018736&switchcmd=setswitchtoggle&sid=0a1b''],
        logged = [], executed = [''Lamp'']\<rparr>)"
    by (simp add: toggleForAin_def getWithAin_def HTTPClient_Get_def demoExtern_def demoFritz_def)
  have ts: "TrimSpace demoExtern ''1'' = ''1''" "completion demoExtern = [1]"
    by (simp_all add: demoExtern_def)
  have sg: "scatterGather demoExtern [(''Lamp'', ?wf ''116570018736'')]
              (genericSuccessHandler demoExtern) genericErrorHandler ?w1 =
      ([\<lparr>msg = ''1'', err = None\<rparr>],
       \<lparr>requests = [''http://fritz.box:80//webservices/homeautoswitch.lua?switchcmd=getdevicelistinfos&sid=0a1b'',
                     ''http://fritz.box:80//webservices/homeautoswitch.lua?ain=116570018736&switchcmd=setswitchtoggle&sid=0a1b''],
         logged = [Success (''Successfully processed device 'Lamp'; response was: 1'')],
         executed = [''Lamp'']\<rparr>)"
    by (simp add: scatterGather_def ts run deliver_def genericSuccessHandler_def logger_Success_def)
  have gr: "genericResult [\<lparr>msg = ''1'', err = None\<rparr>] = None"
    by (simp add: genericResult_def truncateToOne_def)
  have a: "length (fst (scatterGather demoExtern
       (fst (fst (buildBacklog demoExtern demoFritz [''Lamp'', ''Lamp''] ?wf demoWorld)))
       (genericSuccessHandler demoExtern) genericErrorHandler
       (snd (buildBacklog demoExtern demoFritz [''Lamp'', ''Lamp''] ?wf demoWorld)))) = 1"
    by (simp only: bb sg fst_conv snd_conv list.size)
  have b: "Toggle demoExtern demoFritz [''Lamp'', ''Lamp''] demoWorld =
       (None,
        \<lparr>requests = [''http://fritz.box:80//webservices/homeautoswitch.lua?switchcmd=getdevicelistinfos&sid=0a1b'',
                     ''http://fritz.box:80//webservices/homeautoswitch.lua?ain=116570018736&switchcmd=setswitchtoggle&sid=0a1b''],
         logged = [Success (''Successfully processed device 'Lamp'; response was: 1'')],
         executed = [''Lamp'']\<rparr>)"
    by (simp only: Toggle_def doConcurrently_def bb sg gr prod.case option.case Let_def)
  from a b show ?thesis by simp
qed

end
